theory Spec2Isabelle
  imports Main "HOL-Library.AList" "HOL-Library.Sublist"
begin

section \<open>Values shared by the adapter and the manager\<close>

text \<open>
  Python values of type \<open>Any\<close> that travel through the code (tool arguments, JSON schemas)
  are JSON-like. A \<open>dict[str, Any]\<close> is an association list: insertion order is kept.
\<close>

datatype json =
    JNull
  | JBool bool
  | JInt int
  | JStr string
  | JList "json list"
  | JDict "(string \<times> json) list"

type_synonym pydict = "(string \<times> json) list"

text \<open>
  An exception object: its class name and the text that \<open>str(e)\<close> (the \<open>{e}\<close> of an
  f-string) renders. The failures of the requests that the manager makes (opening a
  session, listing tools, closing a session) and those of the constructors are errors
  that derive from \<open>Exception\<close>.
\<close>

datatype exn = Exn (exn_class: string) (exn_msg: string)

text \<open>
  What a remote tool call raises: an exception that derives from \<open>Exception\<close>, which
  \<open>except Exception\<close> catches, or one that derives from \<open>BaseException\<close> only (such as
  \<open>asyncio.CancelledError\<close> or \<open>KeyboardInterrupt\<close>), which it does not catch.
\<close>

datatype raised = Ordinary exn | BaseOnly exn

definition ValueError :: "string \<Rightarrow> exn" where
  "ValueError msg = Exn ''ValueError'' msg"

text \<open>Python's \<open>x or d\<close> on a list, dict or string, and on a value that may be \<open>None\<close>.\<close>

definition or_list :: "'a list \<Rightarrow> 'a list \<Rightarrow> 'a list" where
  "or_list v d = (if v = [] then d else v)"

definition or_opt :: "'a list option \<Rightarrow> 'a list \<Rightarrow> 'a list" where
  "or_opt x d = (case x of None \<Rightarrow> d | Some v \<Rightarrow> or_list v d)"

text \<open>\<open>sep.join(parts)\<close>.\<close>

fun join :: "string \<Rightarrow> string list \<Rightarrow> string" where
  "join sep [] = []"
| "join sep [p] = p"
| "join sep (p # q # ps) = p @ sep @ join sep (q # ps)"

text \<open>The line feed, and the single quote that the messages put around names.\<close>

abbreviation newline :: string where
  "newline \<equiv> [CHR 0x0A]"

abbreviation sq :: string where
  "sq \<equiv> [CHR 0x27]"

section \<open>Server configurations and transports\<close>

text \<open>
  Modelled from the spec: the class \<open>McpServerConfig\<close> of \<open>nanobot.config.schema\<close> is not
  part of the sources at hand. Its fields and defaults are those the spec's ServerConfig
  and the tests name: \<open>enabled\<close> (default true), \<open>type\<close> (default \<open>http\<close>, any string is
  accepted), \<open>url\<close>, \<open>headers\<close>, \<open>command\<close>, \<open>args\<close>, \<open>env\<close>. The three containers may be
  absent (\<open>None\<close>), which is what the \<open>or {}\<close> and \<open>or []\<close> of the code guard against.
\<close>

record McpServerConfig =
  cfg_enabled :: bool
  cfg_type :: string
  cfg_url :: string
  cfg_headers :: "(string \<times> string) list option"
  cfg_command :: string
  cfg_args :: "string list option"
  cfg_env :: "(string \<times> string) list option"

text \<open>
  The two transport classes of \<open>fastmcp.client.transports\<close>: an object of the class holds
  the keyword arguments it was constructed with.
\<close>

datatype transport =
    StreamableHttpTransport (t_url: string) (t_headers: "(string \<times> string) list")
  | StdioTransport (t_command: string) (t_args: "string list") (t_env: "(string \<times> string) list")

section \<open>The FastMCP library and the remote side\<close>

text \<open>
  A FastMCP \<open>Client\<close> is built from its transport. What the code asks of it is recorded,
  in order, as a trace of events; the answer of the remote side to each request is a
  function of the trace so far and of the request, so a server may fail at one moment and
  answer at another. \<open>None\<close> from \<open>aenter\<close> or \<open>aexit\<close> means the call returned, \<open>Some e\<close>
  that it raised \<open>e\<close>. Calls to the logger are left out: they change nothing the
  manager or the adapter reads.

  The constructors of the two transport classes belong to the library, which is not
  part of the sources at hand: \<open>new_http_transport\<close> and \<open>new_stdio_transport\<close> say whether
  the constructor accepts its arguments (\<open>None\<close>) or raises (\<open>Some e\<close>).
\<close>

datatype client = Client transport

text \<open>
  A tool as \<open>list_tools\<close> describes it: \<open>description\<close> may be \<open>None\<close>, and the attribute
  \<open>inputSchema\<close> may be missing (\<open>None\<close> here).
\<close>

record remote_tool =
  rt_name :: string
  rt_description :: "string option"
  rt_inputSchema :: "pydict option"

text \<open>
  A content block of a tool result: one with a \<open>text\<close> attribute, or any other block,
  which carries the string that \<open>str(block)\<close> returns.
\<close>

datatype block = TextBlock string | OtherBlock string

datatype event =
    AEnter client
  | ListTools client
  | AExit client
  | CallTool client string pydict

record remote =
  new_http_transport :: "string \<Rightarrow> (string \<times> string) list \<Rightarrow> exn option"
  new_stdio_transport :: "string \<Rightarrow> string list \<Rightarrow> (string \<times> string) list \<Rightarrow> exn option"
  aenter :: "event list \<Rightarrow> client \<Rightarrow> exn option"
  list_tools :: "event list \<Rightarrow> client \<Rightarrow> exn + remote_tool list"
  aexit :: "event list \<Rightarrow> client \<Rightarrow> exn option"
  call_tool :: "event list \<Rightarrow> client \<Rightarrow> string \<Rightarrow> pydict \<Rightarrow> raised + block list"

section \<open>The transport selector (\<open>McpClientManager._build_transport\<close>)\<close>

text \<open>
  The selector raises its own \<open>ValueError\<close> or returns what the constructor of the
  library returns; an exception of the constructor is not caught here.
\<close>

definition build_transport :: "remote \<Rightarrow> string \<Rightarrow> McpServerConfig \<Rightarrow> exn + transport" where
  "build_transport r name cfg =
     (if cfg_type cfg = ''http'' then
        (if cfg_url cfg = [] then
           Inl (ValueError (''MCP server '' @ sq @ name @ sq @ '': HTTP transport requires a 'url'' @ sq))
         else (case new_http_transport r (cfg_url cfg) (or_opt (cfg_headers cfg) []) of
                 Some e \<Rightarrow> Inl e
               | None \<Rightarrow> Inr (StreamableHttpTransport (cfg_url cfg) (or_opt (cfg_headers cfg) []))))
      else if cfg_type cfg = ''stdio'' then
        (if cfg_command cfg = [] then
           Inl (ValueError (''MCP server '' @ sq @ name @ sq @ '': stdio transport requires a 'command'' @ sq))
         else (case new_stdio_transport r (cfg_command cfg) (or_opt (cfg_args cfg) [])
                       (or_opt (cfg_env cfg) []) of
                 Some e \<Rightarrow> Inl e
               | None \<Rightarrow> Inr (StdioTransport (cfg_command cfg) (or_opt (cfg_args cfg) [])
                                (or_opt (cfg_env cfg) []))))
      else
        Inl (ValueError (''MCP server '' @ sq @ name @ sq @ '': unsupported transport type '' @ sq
               @ cfg_type cfg @ sq @ '' (expected 'http' or 'stdio')'')))"

section \<open>The tool adapter (\<open>McpToolAdapter\<close>)\<close>

record McpToolAdapter =
  a_server_name :: string
  a_tool_name :: string
  a_description :: string
  a_input_schema :: pydict
  a_client :: client

definition McpToolAdapter_init ::
  "string \<Rightarrow> string \<Rightarrow> string \<Rightarrow> pydict \<Rightarrow> client \<Rightarrow> McpToolAdapter" where
  "McpToolAdapter_init server_name tool_name tool_description input_schema cl =
     \<lparr> a_server_name = server_name,
       a_tool_name = tool_name,
       a_description = or_list tool_description (''MCP tool '' @ tool_name @ '' from '' @ server_name),
       a_input_schema = or_list input_schema [(''type'', JStr ''object''), (''properties'', JDict [])],
       a_client = cl \<rparr>"

definition adapter_name :: "McpToolAdapter \<Rightarrow> string" where
  "adapter_name a = ''mcp__'' @ a_server_name a @ ''__'' @ a_tool_name a"

definition adapter_description :: "McpToolAdapter \<Rightarrow> string" where
  "adapter_description a = a_description a"

definition adapter_parameters :: "McpToolAdapter \<Rightarrow> pydict" where
  "adapter_parameters a = a_input_schema a"

fun block_part :: "block \<Rightarrow> string" where
  "block_part (TextBlock t) = t"
| "block_part (OtherBlock s) = s"

text \<open>
  \<open>execute(self, **kwargs)\<close> is called with the arguments mapping unpacked into keyword
  arguments. A mapping with the key \<open>self\<close> cannot be bound: the call raises \<open>TypeError\<close>
  before the body runs (the text is that of CPython 3.10 and later).
\<close>

definition binds :: "pydict \<Rightarrow> bool" where
  "binds kwargs = (''self'' \<notin> set (map fst kwargs))"

text \<open>
  \<open>execute\<close> returns its result (\<open>Inr\<close>) or the exception it raises (\<open>Inl\<close>), and the
  trace extended by the one remote call it makes.
\<close>

definition execute ::
  "remote \<Rightarrow> McpToolAdapter \<Rightarrow> pydict \<Rightarrow> event list \<Rightarrow> (exn + string) \<times> event list" where
  "execute r a kwargs w =
     (if \<not> binds kwargs then
        (Inl (Exn ''TypeError''
               (''McpToolAdapter.execute() got multiple values for argument 'self'' @ sq)), w)
      else
        (let w' = w @ [CallTool (a_client a) (a_tool_name a) kwargs] in
         case call_tool r w (a_client a) (a_tool_name a) kwargs of
           Inr content \<Rightarrow>
             (let parts = map block_part content in
              (Inr (if parts \<noteq> [] then join newline parts else ''(empty result)''), w'))
         | Inl (Ordinary e) \<Rightarrow>
             (Inr (''Error calling MCP tool '' @ sq @ a_tool_name a @ sq @ '' on server '' @ sq
                   @ a_server_name a @ sq @ '': '' @ exn_msg e), w')
         | Inl (BaseOnly e) \<Rightarrow> (Inl e, w')))"

section \<open>The connection manager (\<open>McpClientManager\<close>)\<close>

text \<open>
  \<open>config\<close> is \<open>McpConfig.servers\<close>, a dict from server name to its configuration, in
  insertion order. \<open>clients\<close> and \<open>contexts\<close> are the two dicts from server name to the
  client whose session is open; storing under a key that is present replaces the value
  in place, which is \<open>AList.update\<close>.
\<close>

record McpClientManager =
  config :: "(string \<times> McpServerConfig) list"
  clients :: "(string \<times> client) list"
  contexts :: "(string \<times> client) list"
  tools :: "McpToolAdapter list"
  started :: bool

definition McpClientManager_init :: "(string \<times> McpServerConfig) list \<Rightarrow> McpClientManager" where
  "McpClientManager_init cfg =
     \<lparr> config = cfg, clients = [], contexts = [], tools = [], started = False \<rparr>"

text \<open>The adapter that the discovery loop builds for one remote tool of server \<open>name\<close>.\<close>

definition make_adapter :: "string \<Rightarrow> client \<Rightarrow> remote_tool \<Rightarrow> McpToolAdapter" where
  "make_adapter name cl tool =
     McpToolAdapter_init name (rt_name tool) (or_opt (rt_description tool) [])
       (case rt_inputSchema tool of None \<Rightarrow> [] | Some sch \<Rightarrow> sch) cl"

text \<open>
  The body of the \<open>try\<close> of \<open>start\<close> for one enabled server. It returns the exception that
  left the body, if any, and the manager and the trace as they are at that moment: what
  the body stored before it failed stays stored.
\<close>

definition start_try ::
  "remote \<Rightarrow> string \<Rightarrow> McpServerConfig \<Rightarrow> McpClientManager \<times> event list
     \<Rightarrow> exn option \<times> (McpClientManager \<times> event list)" where
  "start_try r name server_cfg s =
     (case s of (m, w) \<Rightarrow>
        (case build_transport r name server_cfg of
           Inl e \<Rightarrow> (Some e, (m, w))
         | Inr tr \<Rightarrow>
            (let cl = Client tr; w1 = w @ [AEnter cl] in
             case aenter r w cl of
               Some e \<Rightarrow> (Some e, (m, w1))
             | None \<Rightarrow>
                (let m1 = m\<lparr> clients := AList.update name cl (clients m),
                              contexts := AList.update name cl (contexts m) \<rparr>;
                     w2 = w1 @ [ListTools cl] in
                 case list_tools r w1 cl of
                   Inl e \<Rightarrow> (Some e, (m1, w2))
                 | Inr remote_tools \<Rightarrow>
                     (None, (m1\<lparr> tools := tools m1 @ map (make_adapter name cl) remote_tools \<rparr>, w2))))))"

text \<open>
  The loop of \<open>start\<close> over the configured servers: a disabled server is passed over,
  and \<open>except Exception\<close> ends the turn of a server whose body raised.
\<close>

fun start_loop ::
  "remote \<Rightarrow> (string \<times> McpServerConfig) list \<Rightarrow> McpClientManager \<times> event list
     \<Rightarrow> McpClientManager \<times> event list" where
  "start_loop r [] s = s"
| "start_loop r ((name, server_cfg) # rest) s =
     (if \<not> cfg_enabled server_cfg then start_loop r rest s
      else (case start_try r name server_cfg s of
              (None, s') \<Rightarrow> start_loop r rest s'
            | (Some e, s') \<Rightarrow> start_loop r rest s'))"

text \<open>
  \<open>start\<close>, \<open>stop\<close>: the value returned (\<open>Inr\<close>) or the exception raised (\<open>Inl\<close>), and the
  manager and the trace afterwards.
\<close>

definition start ::
  "remote \<Rightarrow> McpClientManager \<times> event list
     \<Rightarrow> (exn + McpToolAdapter list) \<times> (McpClientManager \<times> event list)" where
  "start r s =
     (case s of (m, w) \<Rightarrow>
        if started m then (Inr (tools m), (m, w))
        else (case start_loop r (config m) (m\<lparr> tools := [] \<rparr>, w) of
                (m', w') \<Rightarrow> (Inr (tools m'), (m'\<lparr> started := True \<rparr>, w'))))"

fun stop_loop :: "remote \<Rightarrow> (string \<times> client) list \<Rightarrow> event list \<Rightarrow> event list" where
  "stop_loop r [] w = w"
| "stop_loop r ((name, cl) # rest) w =
     (case aexit r w cl of
        None \<Rightarrow> stop_loop r rest (w @ [AExit cl])
      | Some e \<Rightarrow> stop_loop r rest (w @ [AExit cl]))"

definition stop ::
  "remote \<Rightarrow> McpClientManager \<times> event list \<Rightarrow> (exn + unit) \<times> (McpClientManager \<times> event list)" where
  "stop r s =
     (case s of (m, w) \<Rightarrow>
        (Inr (), (m\<lparr> clients := [], contexts := [], tools := [], started := False \<rparr>,
                  stop_loop r (contexts m) w)))"

definition get_tools :: "McpClientManager \<Rightarrow> McpToolAdapter list" where
  "get_tools m = tools m"

definition is_started :: "McpClientManager \<Rightarrow> bool" where
  "is_started m = started m"

text \<open>The states a manager goes through: created, then any sequence of \<open>start\<close> and \<open>stop\<close>.\<close>

inductive reachable ::
  "remote \<Rightarrow> (string \<times> McpServerConfig) list \<Rightarrow> McpClientManager \<times> event list \<Rightarrow> bool"
  for r :: remote and cfg :: "(string \<times> McpServerConfig) list" where
  reach_init: "reachable r cfg (McpClientManager_init cfg, w)"
| reach_start: "reachable r cfg s \<Longrightarrow> reachable r cfg (snd (start r s))"
| reach_stop: "reachable r cfg s \<Longrightarrow> reachable r cfg (snd (stop r s))"

text \<open>The number of connection-open requests in a trace.\<close>

fun is_open :: "event \<Rightarrow> bool" where
  "is_open (AEnter cl) = True"
| "is_open (ListTools cl) = False"
| "is_open (AExit cl) = False"
| "is_open (CallTool cl n k) = False"

definition opens :: "event list \<Rightarrow> nat" where
  "opens w = length (filter is_open w)"

section \<open>Concrete servers, remote sides and adapters\<close>

text \<open>The configurations, clients and remote behaviours on which the results below are run.\<close>

definition server_http :: McpServerConfig where
  "server_http =
     \<lparr> cfg_enabled = True, cfg_type = ''http'', cfg_url = ''http://x/mcp'', cfg_headers = None,
       cfg_command = [], cfg_args = None, cfg_env = None \<rparr>"

definition server_stdio :: McpServerConfig where
  "server_stdio =
     \<lparr> cfg_enabled = True, cfg_type = ''stdio'', cfg_url = [], cfg_headers = None,
       cfg_command = ''python'', cfg_args = Some [''s.py''], cfg_env = None \<rparr>"

definition server_off :: McpServerConfig where
  "server_off = server_http \<lparr> cfg_enabled := False \<rparr>"

definition server_websocket :: McpServerConfig where
  "server_websocket = server_http \<lparr> cfg_type := ''websocket'' \<rparr>"

definition server_no_url :: McpServerConfig where
  "server_no_url = server_http \<lparr> cfg_url := [] \<rparr>"

definition server_no_command :: McpServerConfig where
  "server_no_command = server_stdio \<lparr> cfg_command := [] \<rparr>"

definition http_client :: client where
  "http_client = Client (StreamableHttpTransport ''http://x/mcp'' [])"

definition stdio_client :: client where
  "stdio_client = Client (StdioTransport ''python'' [''s.py''] [])"

definition tool_t :: remote_tool where
  "tool_t = \<lparr> rt_name = ''t'', rt_description = Some ''d'', rt_inputSchema = Some [] \<rparr>"

definition adapter_t :: McpToolAdapter where
  "adapter_t = McpToolAdapter_init ''srv'' ''t'' ''Say hello'' [] http_client"

definition server_bad_url :: McpServerConfig where
  "server_bad_url = server_http \<lparr> cfg_url := ''localhost:8000/mcp'' \<rparr>"

text \<open>
  The check that the constructor of \<open>StreamableHttpTransport\<close> makes on its URL: it
  raises \<open>ValueError\<close> for a string that does not start with \<open>http\<close>. The constructor of
  \<open>StdioTransport\<close> accepts its arguments.
\<close>

definition http_url_check :: "string \<Rightarrow> (string \<times> string) list \<Rightarrow> exn option" where
  "http_url_check u hs =
     (if prefix ''http'' u then None
      else Some (ValueError ''Invalid HTTP/S URL provided for Streamable HTTP.''))"

definition stdio_accepts :: "string \<Rightarrow> string list \<Rightarrow> (string \<times> string) list \<Rightarrow> exn option" where
  "stdio_accepts c xs e = None"

text \<open>A remote side on which every request succeeds; a tool call answers two lines.\<close>

definition remote_ok :: remote where
  "remote_ok =
     \<lparr> new_http_transport = http_url_check,
       new_stdio_transport = stdio_accepts,
       aenter = (\<lambda>w cl. None),
       list_tools = (\<lambda>w cl. Inr [tool_t]),
       aexit = (\<lambda>w cl. None),
       call_tool = (\<lambda>w cl n k. Inr [TextBlock ''Line 1'', TextBlock ''Line 2'']) \<rparr>"

text \<open>A remote side on which every request raises.\<close>

definition remote_down :: remote where
  "remote_down =
     \<lparr> new_http_transport = http_url_check,
       new_stdio_transport = stdio_accepts,
       aenter = (\<lambda>w cl. Some (Exn ''ConnectionError'' ''refused'')),
       list_tools = (\<lambda>w cl. Inl (Exn ''ConnectionError'' ''refused'')),
       aexit = (\<lambda>w cl. Some (Exn ''ConnectionError'' ''refused'')),
       call_tool = (\<lambda>w cl n k. Inl (Ordinary (Exn ''ConnectionError'' ''server down''))) \<rparr>"

text \<open>A remote side whose tool call is cancelled.\<close>

definition remote_cancelled :: remote where
  "remote_cancelled =
     remote_down \<lparr> call_tool := (\<lambda>w cl n k. Inl (BaseOnly (Exn ''CancelledError'' []))) \<rparr>"

text \<open>
  A remote side that opens every session, lists the tools of the HTTP server only, fails
  to close the HTTP session, and answers a tool call with one block of empty text.
\<close>

definition remote_flaky :: remote where
  "remote_flaky =
     \<lparr> new_http_transport = http_url_check,
       new_stdio_transport = stdio_accepts,
       aenter = (\<lambda>w cl. None),
       list_tools = (\<lambda>w cl. if cl = http_client then Inr [tool_t]
                             else Inl (Exn ''RuntimeError'' ''no tools'')),
       aexit = (\<lambda>w cl. if cl = http_client then Some (Exn ''RuntimeError'' ''close failed'')
                        else None),
       call_tool = (\<lambda>w cl n k. Inr [TextBlock []]) \<rparr>"

definition three_servers :: "(string \<times> McpServerConfig) list" where
  "three_servers = [(''a'', server_http), (''b'', server_stdio), (''c'', server_websocket)]"

text \<open>A manager that has started against the one HTTP server \<open>s\<close>.\<close>

definition started_manager :: McpClientManager where
  "started_manager =
     \<lparr> config = [(''s'', server_http)],
       clients = [(''s'', http_client)],
       contexts = [(''s'', http_client)],
       tools = [make_adapter ''s'' http_client tool_t],
       started = True \<rparr>"

section \<open>Auxiliary facts\<close>

subsection \<open>Strings\<close>

lemma sublist_appR: "sublist xs zs \<Longrightarrow> sublist xs (ys @ zs)"
  by (simp add: sublist_append)

lemma sublist_appL: "sublist xs ys \<Longrightarrow> sublist xs (ys @ zs)"
  by (simp add: sublist_append)

lemma sublist_self: "sublist xs xs"
  using sublist_appendI [of xs "[]" "[]"] by simp

lemma or_opt_empty: "or_opt x [] = (case x of None \<Rightarrow> [] | Some v \<Rightarrow> v)"
  by (simp add: or_opt_def or_list_def split: option.split)

subsection \<open>The adapter\<close>

lemma execute_result:
  "binds kwargs \<Longrightarrow>
   fst (execute r a kwargs w) =
     (case call_tool r w (a_client a) (a_tool_name a) kwargs of
        Inl (Ordinary e) \<Rightarrow>
          Inr (''Error calling MCP tool '' @ sq @ a_tool_name a @ sq @ '' on server '' @ sq
               @ a_server_name a @ sq @ '': '' @ exn_msg e)
      | Inl (BaseOnly e) \<Rightarrow> Inl e
      | Inr bs \<Rightarrow> Inr (if bs = [] then ''(empty result)'' else join newline (map block_part bs)))"
  by (simp add: execute_def Let_def split: sum.split raised.split)

lemma execute_unbound:
  "\<not> binds kwargs \<Longrightarrow>
   execute r a kwargs w =
     (Inl (Exn ''TypeError''
            (''McpToolAdapter.execute() got multiple values for argument 'self'' @ sq)), w)"
  by (simp add: execute_def)

lemma error_text_mentions:
  "sublist ''Error calling'' (''Error calling MCP tool '' @ sq @ t @ sq @ '' on server '' @ sq @ s @ sq @ '': '' @ msg)"
  "sublist msg (''Error calling MCP tool '' @ sq @ t @ sq @ '' on server '' @ sq @ s @ sq @ '': '' @ msg)"
  by (simp add: sublist_code, intro sublist_appR sublist_self)

lemma adapter_name_format:
  "adapter_name (McpToolAdapter_init s c d sch cl) = ''mcp__'' @ s @ ''__'' @ c"
  by (simp add: adapter_name_def McpToolAdapter_init_def)

lemma adapter_name_same_capability:
  "s1 \<noteq> s2 \<Longrightarrow>
     adapter_name (McpToolAdapter_init s1 c d1 sch1 cl1) \<noteq> adapter_name (McpToolAdapter_init s2 c d2 sch2 cl2)"
  by (simp add: adapter_name_format)

subsection \<open>The transport selector, branch by branch\<close>

lemma build_transport_no_url:
  "cfg_type cfg = ''http'' \<Longrightarrow> cfg_url cfg = [] \<Longrightarrow>
     build_transport r name cfg =
       Inl (ValueError (''MCP server '' @ sq @ name @ sq @ '': HTTP transport requires a 'url'' @ sq))"
  by (simp add: build_transport_def)

lemma build_transport_no_command:
  "cfg_type cfg = ''stdio'' \<Longrightarrow> cfg_command cfg = [] \<Longrightarrow>
     build_transport r name cfg =
       Inl (ValueError (''MCP server '' @ sq @ name @ sq @ '': stdio transport requires a 'command'' @ sq))"
  by (simp add: build_transport_def)

lemma build_transport_unsupported:
  "cfg_type cfg \<noteq> ''http'' \<Longrightarrow> cfg_type cfg \<noteq> ''stdio'' \<Longrightarrow>
     build_transport r name cfg =
       Inl (ValueError (''MCP server '' @ sq @ name @ sq @ '': unsupported transport type '' @ sq
               @ cfg_type cfg @ sq @ '' (expected 'http' or 'stdio')''))"
  by (simp add: build_transport_def)

lemma build_transport_http:
  "cfg_type cfg = ''http'' \<Longrightarrow> cfg_url cfg \<noteq> [] \<Longrightarrow>
     build_transport r name cfg =
       (case new_http_transport r (cfg_url cfg) (case cfg_headers cfg of None \<Rightarrow> [] | Some h \<Rightarrow> h) of
          Some e \<Rightarrow> Inl e
        | None \<Rightarrow> Inr (StreamableHttpTransport (cfg_url cfg)
                       (case cfg_headers cfg of None \<Rightarrow> [] | Some h \<Rightarrow> h)))"
  by (simp add: build_transport_def or_opt_empty split: option.split)

lemma build_transport_stdio:
  "cfg_type cfg = ''stdio'' \<Longrightarrow> cfg_command cfg \<noteq> [] \<Longrightarrow>
     build_transport r name cfg =
       (case new_stdio_transport r (cfg_command cfg)
               (case cfg_args cfg of None \<Rightarrow> [] | Some xs \<Rightarrow> xs)
               (case cfg_env cfg of None \<Rightarrow> [] | Some e \<Rightarrow> e) of
          Some e \<Rightarrow> Inl e
        | None \<Rightarrow> Inr (StdioTransport (cfg_command cfg)
                       (case cfg_args cfg of None \<Rightarrow> [] | Some xs \<Rightarrow> xs)
                       (case cfg_env cfg of None \<Rightarrow> [] | Some e \<Rightarrow> e)))"
  by (simp add: build_transport_def or_opt_empty split: option.split)

subsection \<open>One server: the body of the \<open>try\<close>\<close>

text \<open>
  The body fails in three ways only: the transport cannot be built, the session does not
  open, or the session opens and the listing of tools fails. In the last case the session
  stays registered.
\<close>

lemma start_try_config_fails:
  "build_transport r name cfg = Inl e \<Longrightarrow> start_try r name cfg s = (Some e, s)"
  by (cases s) (simp add: start_try_def)

lemma start_try_connect_fails:
  "build_transport r name cfg = Inr tr \<Longrightarrow> aenter r w (Client tr) = Some e \<Longrightarrow>
     start_try r name cfg (m, w) = (Some e, (m, w @ [AEnter (Client tr)]))"
  by (simp add: start_try_def)

lemma start_try_discovery_fails:
  "build_transport r name cfg = Inr tr \<Longrightarrow> aenter r w (Client tr) = None \<Longrightarrow>
   list_tools r (w @ [AEnter (Client tr)]) (Client tr) = Inl e \<Longrightarrow>
     start_try r name cfg (m, w) =
       (Some e, (m\<lparr> clients := AList.update name (Client tr) (clients m),
                     contexts := AList.update name (Client tr) (contexts m) \<rparr>,
                 w @ [AEnter (Client tr), ListTools (Client tr)]))"
  by (simp add: start_try_def Let_def)

lemma start_try_succeeds:
  "build_transport r name cfg = Inr tr \<Longrightarrow> aenter r w (Client tr) = None \<Longrightarrow>
   list_tools r (w @ [AEnter (Client tr)]) (Client tr) = Inr ts \<Longrightarrow>
     start_try r name cfg (m, w) =
       (None, (m\<lparr> clients := AList.update name (Client tr) (clients m),
                   contexts := AList.update name (Client tr) (contexts m),
                   tools := tools m @ map (make_adapter name (Client tr)) ts \<rparr>,
               w @ [AEnter (Client tr), ListTools (Client tr)]))"
  by (simp add: start_try_def Let_def)

lemma start_try_config [simp]: "config (fst (snd (start_try r name cfg (m, w)))) = config m"
  by (simp add: start_try_def Let_def split: sum.split option.split)

lemma start_try_started [simp]: "started (fst (snd (start_try r name cfg (m, w)))) = started m"
  by (simp add: start_try_def Let_def split: sum.split option.split)

lemma start_try_with_config:
  "start_try r name cfg (m\<lparr>config := c\<rparr>, w) =
     (fst (start_try r name cfg (m, w)), (fst (snd (start_try r name cfg (m, w))))\<lparr>config := c\<rparr>, snd (snd (start_try r name cfg (m, w))))"
  by (simp add: start_try_def Let_def split: sum.split option.split)



lemma start_try_sessions:
  "clients m = contexts m \<Longrightarrow>
     clients (fst (snd (start_try r name cfg (m, w)))) = contexts (fst (snd (start_try r name cfg (m, w))))"
  by (simp add: start_try_def Let_def split: sum.split option.split)

subsection \<open>The loop over the servers\<close>

lemma start_loop_step:
  "start_loop r ((name, cfg) # rest) s =
     (if cfg_enabled cfg then start_loop r rest (snd (start_try r name cfg s)) else start_loop r rest s)"
  by (simp split: prod.split option.split)

lemma start_loop_append: "start_loop r (xs @ ys) s = start_loop r ys (start_loop r xs s)"
proof (induction xs arbitrary: s)
  case Nil show ?case by simp
next
  case (Cons sv xs)
  obtain name cfg where sv: "sv = (name, cfg)" by (cases sv)
  show ?case unfolding sv append_Cons start_loop_step by (simp add: Cons.IH del: start_loop.simps)
qed

lemma start_loop_with_config:
  "start_loop r svs (m\<lparr>config := c\<rparr>, w) =
     ((fst (start_loop r svs (m, w)))\<lparr>config := c\<rparr>, snd (start_loop r svs (m, w)))"
proof (induction svs arbitrary: m w)
  case Nil
  show ?case by simp
next
  case (Cons sv svs)
  obtain name cfg where sv: "sv = (name, cfg)" by (cases sv)
  obtain e m1 w1 where t: "start_try r name cfg (m, w) = (e, (m1, w1))"
    by (metis prod.exhaust)
  show ?case
    unfolding sv start_loop_step
    by (simp add: start_try_with_config t Cons.IH del: start_loop.simps)
qed

lemma start_loop_started [simp]: "started (fst (start_loop r svs s)) = started (fst s)"
proof (induction svs arbitrary: s)
  case Nil show ?case by simp
next
  case (Cons sv svs)
  obtain name cfg where sv: "sv = (name, cfg)" by (cases sv)
  obtain m w where s: "s = (m, w)" by (cases s)
  show ?case unfolding sv start_loop_step by (simp add: Cons.IH s del: start_loop.simps)
qed

lemma start_loop_config [simp]: "config (fst (start_loop r svs s)) = config (fst s)"
proof (induction svs arbitrary: s)
  case Nil show ?case by simp
next
  case (Cons sv svs)
  obtain name cfg where sv: "sv = (name, cfg)" by (cases sv)
  obtain m w where s: "s = (m, w)" by (cases s)
  show ?case unfolding sv start_loop_step by (simp add: Cons.IH s del: start_loop.simps)
qed

lemma start_loop_filter:
  "start_loop r (filter (\<lambda>(n, c). cfg_enabled c) svs) s = start_loop r svs s"
proof (induction svs arbitrary: s)
  case Nil show ?case by simp
next
  case (Cons sv svs)
  obtain name cfg where sv: "sv = (name, cfg)" by (cases sv)
  show ?case unfolding sv by (simp add: start_loop_step Cons.IH del: start_loop.simps)
qed


lemma start_loop_sessions:
  "clients (fst s) = contexts (fst s) \<Longrightarrow>
     clients (fst (start_loop r svs s)) = contexts (fst (start_loop r svs s))"
proof (induction svs arbitrary: s)
  case Nil then show ?case by simp
next
  case (Cons sv svs)
  obtain name cfg where sv: "sv = (name, cfg)" by (cases sv)
  obtain m w where s: "s = (m, w)" by (cases s)
  have "clients (fst (snd (start_try r name cfg s))) = contexts (fst (snd (start_try r name cfg s)))"
    using Cons.prems start_try_sessions [of m r name cfg w] by (simp add: s)
  then show ?case
    unfolding sv start_loop_step using Cons.prems Cons.IH by simp
qed

subsection \<open>\<open>start\<close> and \<open>stop\<close>\<close>

lemma start_started: "started m \<Longrightarrow> start r (m, w) = (Inr (tools m), (m, w))"
  by (simp add: start_def)

lemma start_not_started:
  "\<not> started m \<Longrightarrow> start r (m, w) =
     (Inr (tools (fst (start_loop r (config m) (m\<lparr>tools := []\<rparr>, w)))),
      ((fst (start_loop r (config m) (m\<lparr>tools := []\<rparr>, w)))\<lparr>started := True\<rparr>,
       snd (start_loop r (config m) (m\<lparr>tools := []\<rparr>, w))))"
  by (simp add: start_def split: prod.split)

lemma start_result: "fst (start r s) = Inr (tools (fst (snd (start r s))))"
  by (cases s) (simp add: start_def split: prod.split)

lemma start_sets_started: "started (fst (snd (start r s)))"
  by (cases s) (simp add: start_def split: prod.split)

lemma start_twice: "start r (snd (start r s)) = start r s"
proof -
  obtain res m' w' where st: "start r s = (res, (m', w'))" by (metis prod.exhaust)
  have "started m'" using start_sets_started [of r s] by (simp add: st)
  moreover have "res = Inr (tools m')" using start_result [of r s] by (simp add: st)
  ultimately show ?thesis by (simp add: st start_started)
qed

lemma opens_append [simp]: "opens (w @ v) = opens w + opens v"
  by (simp add: opens_def)

lemma start_single_opens:
  assumes "\<not> started m" "config m = [(name, cfg)]" "cfg_enabled cfg" "build_transport r name cfg = Inr tr"
  shows "opens (snd (snd (start r (m, w)))) = opens w + 1"
  using assms
  by (simp add: start_not_started start_try_def Let_def opens_def split: option.split sum.split)

lemma stop_loop_trace: "stop_loop r cs w = w @ map (AExit \<circ> snd) cs"
  by (induction cs arbitrary: w) (auto split: option.split)

lemma reachable_sessions: "reachable r cfg s \<Longrightarrow> clients (fst s) = contexts (fst s)"
proof (induction rule: reachable.induct)
  case (reach_init w)
  show ?case by (simp add: McpClientManager_init_def)
next
  case (reach_start s)
  obtain m w where s: "s = (m, w)" by (cases s)
  show ?case
  proof (cases "started m")
    case True
    then show ?thesis using reach_start.IH by (simp add: s start_started)
  next
    case False
    have "clients (fst (m\<lparr>tools := []\<rparr>, w)) = contexts (fst (m\<lparr>tools := []\<rparr>, w))"
      using reach_start.IH by (simp add: s)
    from start_loop_sessions [OF this, of r "config m"] show ?thesis
      using False by (simp add: s start_not_started)
  qed
next
  case (reach_stop s)
  show ?case by (cases s) (simp add: stop_def)
qed

section \<open>The adapter\<close>

text \<open>
  C1 (as amended). For every adapter and every arguments mapping that has no key \<open>self\<close>
  (so that it can be passed as keyword arguments): if the forwarded remote call fails
  with an exception that derives from \<open>Exception\<close>, \<open>execute\<close> returns the string
  \<open>Error calling MCP tool '<capability>' on server '<server>': <cause>\<close>, which contains the
  text \<open>Error calling\<close> and the message of the original failure; if the call succeeds,
  \<open>execute\<close> returns the normalized remote result; an exception that derives from
  \<open>BaseException\<close> only, such as a cancellation, is not caught and leaves \<open>execute\<close>. So
  \<open>execute\<close> returns a string whenever the remote call does not raise an exception of
  that last kind.
\<close>

theorem execute_string_or_propagates:
  "(binds kwargs \<and> call_tool r w (a_client a) (a_tool_name a) kwargs = Inl (Ordinary e) \<longrightarrow>
        fst (execute r a kwargs w) =
          Inr (''Error calling MCP tool '' @ sq @ a_tool_name a @ sq @ '' on server '' @ sq
               @ a_server_name a @ sq @ '': '' @ exn_msg e)
        \<and> (\<exists>s. fst (execute r a kwargs w) = Inr s \<and> sublist ''Error calling'' s
                \<and> sublist (exn_msg e) s))
   \<and> (binds kwargs \<and> call_tool r w (a_client a) (a_tool_name a) kwargs = Inr bs \<longrightarrow>
        fst (execute r a kwargs w) =
          Inr (if map block_part bs \<noteq> [] then join newline (map block_part bs)
               else ''(empty result)''))
   \<and> (binds kwargs \<and> call_tool r w (a_client a) (a_tool_name a) kwargs = Inl (BaseOnly e) \<longrightarrow>
        fst (execute r a kwargs w) = Inl e)
   \<and> (binds kwargs \<and> (\<forall>x. call_tool r w (a_client a) (a_tool_name a) kwargs \<noteq> Inl (BaseOnly x)) \<longrightarrow>
        (\<exists>s. fst (execute r a kwargs w) = Inr s))"
proof -
  have "fst (execute r a kwargs w) =
          Inr (''Error calling MCP tool '' @ sq @ a_tool_name a @ sq @ '' on server '' @ sq
               @ a_server_name a @ sq @ '': '' @ exn_msg e)
        \<and> (\<exists>s. fst (execute r a kwargs w) = Inr s \<and> sublist ''Error calling'' s
                \<and> sublist (exn_msg e) s)"
    if "binds kwargs" "call_tool r w (a_client a) (a_tool_name a) kwargs = Inl (Ordinary e)"
    using that error_text_mentions [where t = "a_tool_name a" and s = "a_server_name a" and msg = "exn_msg e"]
    by (simp add: execute_result)
  moreover have "fst (execute r a kwargs w) =
          Inr (if map block_part bs \<noteq> [] then join newline (map block_part bs)
               else ''(empty result)'')"
    if "binds kwargs" "call_tool r w (a_client a) (a_tool_name a) kwargs = Inr bs"
    using that by (simp add: execute_result)
  moreover have "fst (execute r a kwargs w) = Inl e"
    if "binds kwargs" "call_tool r w (a_client a) (a_tool_name a) kwargs = Inl (BaseOnly e)"
    using that by (simp add: execute_result)
  moreover have "\<exists>s. fst (execute r a kwargs w) = Inr s"
    if "binds kwargs" "\<forall>x. call_tool r w (a_client a) (a_tool_name a) kwargs \<noteq> Inl (BaseOnly x)"
    using that by (simp add: execute_result split: sum.split raised.split)
  ultimately show ?thesis by blast
qed

text \<open>
  Run on a remote side whose call raises \<open>ConnectionError("server down")\<close>, on one that
  answers two lines, and on one whose call is cancelled.
\<close>

theorem execute_string_or_propagates_witness:
  "binds []
   \<and> call_tool remote_down [] (a_client adapter_t) (a_tool_name adapter_t) [] =
       Inl (Ordinary (Exn ''ConnectionError'' ''server down''))
   \<and> fst (execute remote_down adapter_t [] []) =
       Inr ''Error calling MCP tool 't' on server 'srv': server down''
   \<and> call_tool remote_ok [] (a_client adapter_t) (a_tool_name adapter_t) [] =
       Inr [TextBlock ''Line 1'', TextBlock ''Line 2'']
   \<and> fst (execute remote_ok adapter_t [] []) = Inr (''Line 1'' @ newline @ ''Line 2'')
   \<and> call_tool remote_cancelled [] (a_client adapter_t) (a_tool_name adapter_t) [] =
       Inl (BaseOnly (Exn ''CancelledError'' []))
   \<and> fst (execute remote_cancelled adapter_t [] []) = Inl (Exn ''CancelledError'' [])"
proof -
  have b: "binds []" by (simp add: binds_def)
  have c1: "call_tool remote_down [] (a_client adapter_t) (a_tool_name adapter_t) [] =
       Inl (Ordinary (Exn ''ConnectionError'' ''server down''))"
    by (simp add: remote_down_def)
  have c2: "call_tool remote_ok [] (a_client adapter_t) (a_tool_name adapter_t) [] =
       Inr [TextBlock ''Line 1'', TextBlock ''Line 2'']"
    by (simp add: remote_ok_def)
  have c3: "call_tool remote_cancelled [] (a_client adapter_t) (a_tool_name adapter_t) [] =
       Inl (BaseOnly (Exn ''CancelledError'' []))"
    by (simp add: remote_cancelled_def)
  from execute_string_or_propagates [where r = remote_down and a = adapter_t and kwargs = "[]"
      and w = "[]" and e = "Exn ''ConnectionError'' ''server down''"] b c1
  have "fst (execute remote_down adapter_t [] []) =
          Inr (''Error calling MCP tool '' @ sq @ a_tool_name adapter_t @ sq @ '' on server '' @ sq
               @ a_server_name adapter_t @ sq @ '': '' @ exn_msg (Exn ''ConnectionError'' ''server down''))"
    by blast
  then have r1: "fst (execute remote_down adapter_t [] []) =
       Inr ''Error calling MCP tool 't' on server 'srv': server down''"
    by (simp add: adapter_t_def McpToolAdapter_init_def)
  from execute_string_or_propagates [where r = remote_ok and a = adapter_t and kwargs = "[]"
      and w = "[]" and bs = "[TextBlock ''Line 1'', TextBlock ''Line 2'']"] b c2
  have "fst (execute remote_ok adapter_t [] []) =
          Inr (if map block_part [TextBlock ''Line 1'', TextBlock ''Line 2''] \<noteq> []
               then join newline (map block_part [TextBlock ''Line 1'', TextBlock ''Line 2''])
               else ''(empty result)'')"
    by blast
  then have r2: "fst (execute remote_ok adapter_t [] []) = Inr (''Line 1'' @ newline @ ''Line 2'')"
    by simp
  from execute_string_or_propagates [where r = remote_cancelled and a = adapter_t and kwargs = "[]"
      and w = "[]" and e = "Exn ''CancelledError'' []"] b c3
  have r3: "fst (execute remote_cancelled adapter_t [] []) = Inl (Exn ''CancelledError'' [])"
    by blast
  show ?thesis
    using b c1 c2 c3 r1 r2 r3 by blast
qed

text \<open>
  Three inputs at which the claim as written fails. The message starts with
  \<open>Error calling MCP tool\<close>: for the tool \<open>t\<close> of server \<open>srv\<close> it is not the string
  \<open>Error calling tool 't' on server 'srv': server down\<close>. A cancelled remote call makes
  \<open>execute\<close> raise \<open>CancelledError\<close>. A mapping with the key \<open>self\<close> makes it raise
  \<open>TypeError\<close>.
\<close>

theorem execute_never_raises_counterexample:
  "fst (execute remote_down adapter_t [] []) =
       Inr ''Error calling MCP tool 't' on server 'srv': server down''
   \<and> fst (execute remote_down adapter_t [] []) \<noteq>
       Inr ''Error calling tool 't' on server 'srv': server down''
   \<and> fst (execute remote_cancelled adapter_t [] []) = Inl (Exn ''CancelledError'' [])
   \<and> fst (execute remote_ok adapter_t [(''self'', JNull)] []) =
       Inl (Exn ''TypeError'' (''McpToolAdapter.execute() got multiple values for argument 'self'' @ sq))"
  by (simp add: execute_def binds_def remote_down_def remote_cancelled_def remote_ok_def adapter_t_def
        McpToolAdapter_init_def)

text \<open>
  C2. The public name of the adapter for server \<open>s\<close> and capability \<open>c\<close> is
  \<open>"mcp__" + s + "__" + c\<close> (\<open>adapter_name_format\<close>), and two servers that expose the
  same capability name get different names (\<open>adapter_name_same_capability\<close>). Distinct
  pairs do not always give distinct names, though: the separator may occur inside a name.
  Server \<open>a__b\<close> with capability \<open>c\<close> and server \<open>a\<close> with capability \<open>b__c\<close> both get
  the name \<open>mcp__a__b__c\<close>.
\<close>

theorem adapter_name_collision:
  "(''a__b'', ''c'') \<noteq> (''a'', ''b__c'')
   \<and> adapter_name (McpToolAdapter_init ''a__b'' ''c'' [] [] http_client) = ''mcp__a__b__c''
   \<and> adapter_name (McpToolAdapter_init ''a'' ''b__c'' [] [] http_client) = ''mcp__a__b__c''"
  by (simp add: adapter_name_format)

text \<open>
  C3 (as amended). When the remote call is made (the arguments mapping can be passed as
  keyword arguments) and succeeds with a non-empty sequence of content blocks, the
  result is the newline-join, in block order, of the text of each text block and the
  stringification of each other block, even when that join is the empty string; with
  zero blocks the result is exactly \<open>(empty result)\<close>.
\<close>

theorem execute_joins_blocks:
  "binds kwargs \<Longrightarrow> call_tool r w (a_client a) (a_tool_name a) kwargs = Inr bs \<Longrightarrow>
     fst (execute r a kwargs w) =
       Inr (if bs = [] then ''(empty result)'' else join newline (map block_part bs))"
  by (simp add: execute_result)

text \<open>The blocks \<open>Line 1\<close>, \<open>Line 2\<close> give the two lines separated by one line feed.\<close>

theorem execute_joins_blocks_witness:
  "binds [(''name'', JStr ''Bob'')]
   \<and> call_tool remote_ok [] (a_client adapter_t) (a_tool_name adapter_t) [(''name'', JStr ''Bob'')] =
       Inr [TextBlock ''Line 1'', TextBlock ''Line 2'']
   \<and> fst (execute remote_ok adapter_t [(''name'', JStr ''Bob'')] []) =
       Inr (''Line 1'' @ newline @ ''Line 2'')"
proof -
  have b: "binds [(''name'', JStr ''Bob'')]" by (simp add: binds_def)
  have c: "call_tool remote_ok [] (a_client adapter_t) (a_tool_name adapter_t) [(''name'', JStr ''Bob'')] =
       Inr [TextBlock ''Line 1'', TextBlock ''Line 2'']"
    by (simp add: remote_ok_def)
  have "fst (execute remote_ok adapter_t [(''name'', JStr ''Bob'')] []) =
       Inr (''Line 1'' @ newline @ ''Line 2'')"
    using execute_joins_blocks [OF b c] by simp
  then show ?thesis using b c by blast
qed

text \<open>
  One block of empty text: the joined result is empty, and \<open>execute\<close> returns the empty
  string, not \<open>(empty result)\<close>.
\<close>

theorem execute_empty_text_counterexample:
  "binds []
   \<and> call_tool remote_flaky [] (a_client adapter_t) (a_tool_name adapter_t) [] = Inr [TextBlock []]
   \<and> join newline (map block_part [TextBlock []]) = []
   \<and> fst (execute remote_flaky adapter_t [] []) = Inr []
   \<and> fst (execute remote_flaky adapter_t [] []) \<noteq> Inr ''(empty result)''"
  by (simp add: execute_def binds_def remote_flaky_def)

text \<open>
  C9 (as amended). An adapter constructed with an empty remote description has the
  description \<open>MCP tool <capability> from <server>\<close>, which contains the capability name
  and the server name; so the description of an adapter is never the empty string.
\<close>

theorem default_description:
  "adapter_description (McpToolAdapter_init s t [] sch cl) = ''MCP tool '' @ t @ '' from '' @ s
   \<and> sublist t (adapter_description (McpToolAdapter_init s t [] sch cl))
   \<and> sublist s (adapter_description (McpToolAdapter_init s t [] sch cl))
   \<and> adapter_description (McpToolAdapter_init s t d sch cl) \<noteq> []"
proof -
  have d: "adapter_description (McpToolAdapter_init s t [] sch cl) = ''MCP tool '' @ t @ '' from '' @ s"
    by (simp add: adapter_description_def McpToolAdapter_init_def or_list_def)
  have "sublist t (''MCP tool '' @ t @ '' from '' @ s)"
    by (intro sublist_appR sublist_appL sublist_self)
  moreover have "sublist s (''MCP tool '' @ t @ '' from '' @ s)"
    by (intro sublist_appR sublist_self)
  moreover have "adapter_description (McpToolAdapter_init s t d sch cl) \<noteq> []"
    by (simp add: adapter_description_def McpToolAdapter_init_def or_list_def)
  ultimately show ?thesis by (simp only: d) simp
qed

text \<open>
  For capability \<open>t\<close> of server \<open>s\<close> the default is \<open>MCP tool t from s\<close>, which is not
  the text \<open>capability `t` from server `s`\<close>.
\<close>

theorem default_description_counterexample:
  "adapter_description (McpToolAdapter_init ''s'' ''t'' [] [] http_client) = ''MCP tool t from s''
   \<and> adapter_description (McpToolAdapter_init ''s'' ''t'' [] [] http_client)
       \<noteq> ''capability `t` from server `s`''"
  by (simp add: adapter_description_def McpToolAdapter_init_def or_list_def)

section \<open>The transport selector\<close>

text \<open>
  C10 (as amended). For every server configuration, the selector raises a \<open>ValueError\<close>
  whose message mentions \<open>url\<close> when the type is \<open>http\<close> (network) and the URL is empty,
  mentions \<open>command\<close> when the type is \<open>stdio\<close> (process) and the command is empty, and
  mentions \<open>unsupported\<close> for any other type. In every other case it calls the
  constructor of the library for the chosen type with exactly the fields of that type
  (URL and headers, or command, arguments and environment), where an absent container
  has become the empty one; it returns the descriptor that holds these fields if the
  constructor accepts them, and raises what the constructor raises if it does not.
\<close>

theorem build_transport_cases:
  "(cfg_type cfg = ''http'' \<and> cfg_url cfg = [] \<longrightarrow>
      (\<exists>e. build_transport r name cfg = Inl e \<and> exn_class e = ''ValueError''
           \<and> sublist ''url'' (exn_msg e)))
   \<and> (cfg_type cfg = ''stdio'' \<and> cfg_command cfg = [] \<longrightarrow>
      (\<exists>e. build_transport r name cfg = Inl e \<and> exn_class e = ''ValueError''
           \<and> sublist ''command'' (exn_msg e)))
   \<and> (cfg_type cfg \<noteq> ''http'' \<and> cfg_type cfg \<noteq> ''stdio'' \<longrightarrow>
      (\<exists>e. build_transport r name cfg = Inl e \<and> exn_class e = ''ValueError''
           \<and> sublist ''unsupported'' (exn_msg e)))
   \<and> (cfg_type cfg = ''http'' \<and> cfg_url cfg \<noteq> [] \<longrightarrow>
      build_transport r name cfg =
        (case new_http_transport r (cfg_url cfg) (case cfg_headers cfg of None \<Rightarrow> [] | Some h \<Rightarrow> h) of
           Some e \<Rightarrow> Inl e
         | None \<Rightarrow> Inr (StreamableHttpTransport (cfg_url cfg)
                        (case cfg_headers cfg of None \<Rightarrow> [] | Some h \<Rightarrow> h))))
   \<and> (cfg_type cfg = ''stdio'' \<and> cfg_command cfg \<noteq> [] \<longrightarrow>
      build_transport r name cfg =
        (case new_stdio_transport r (cfg_command cfg)
                (case cfg_args cfg of None \<Rightarrow> [] | Some xs \<Rightarrow> xs)
                (case cfg_env cfg of None \<Rightarrow> [] | Some e \<Rightarrow> e) of
           Some e \<Rightarrow> Inl e
         | None \<Rightarrow> Inr (StdioTransport (cfg_command cfg)
                        (case cfg_args cfg of None \<Rightarrow> [] | Some xs \<Rightarrow> xs)
                        (case cfg_env cfg of None \<Rightarrow> [] | Some e \<Rightarrow> e))))"
proof -
  have u: "sublist ''url'' ('': HTTP transport requires a 'url'' @ sq)"
    by (simp add: sublist_code)
  have c: "sublist ''command'' ('': stdio transport requires a 'command'' @ sq)"
    by (simp add: sublist_code)
  have n: "sublist ''unsupported'' ('': unsupported transport type '' @ sq @ ty @ sq @ '' (expected 'http' or 'stdio')'')" for ty
    by (simp add: sublist_code)
  have pre: "sublist xs (''MCP server '' @ sq @ name @ sq @ tl)" if "sublist xs tl" for xs tl
    by (intro sublist_appR that)
  have v: "exn_class (ValueError msg) = ''ValueError'' \<and> exn_msg (ValueError msg) = msg" for msg
    by (simp add: ValueError_def)
  have a: "cfg_type cfg = ''http'' \<and> cfg_url cfg = [] \<longrightarrow>
      (\<exists>e. build_transport r name cfg = Inl e \<and> exn_class e = ''ValueError''
           \<and> sublist ''url'' (exn_msg e))"
    using build_transport_no_url [where cfg = cfg and name = name and r = r] pre [OF u] v
    by metis
  have b: "cfg_type cfg = ''stdio'' \<and> cfg_command cfg = [] \<longrightarrow>
      (\<exists>e. build_transport r name cfg = Inl e \<and> exn_class e = ''ValueError''
           \<and> sublist ''command'' (exn_msg e))"
    using build_transport_no_command [where cfg = cfg and name = name and r = r] pre [OF c] v
    by metis
  have d: "cfg_type cfg \<noteq> ''http'' \<and> cfg_type cfg \<noteq> ''stdio'' \<longrightarrow>
      (\<exists>e. build_transport r name cfg = Inl e \<and> exn_class e = ''ValueError''
           \<and> sublist ''unsupported'' (exn_msg e))"
    using build_transport_unsupported [where cfg = cfg and name = name and r = r]
      pre [OF n [of "cfg_type cfg"]] v
    by metis
  show ?thesis
    using a b d build_transport_http [where cfg = cfg and name = name and r = r]
      build_transport_stdio [where cfg = cfg and name = name and r = r]
    by blast
qed

text \<open>
  One configuration for each case; the URL \<open>localhost:8000/mcp\<close> is one that the
  constructor refuses.
\<close>

theorem build_transport_cases_witness:
  "build_transport remote_ok ''test'' server_no_url =
       Inl (ValueError (''MCP server 'test': HTTP transport requires a 'url'' @ sq))
   \<and> sublist ''url'' (''MCP server 'test': HTTP transport requires a 'url'' @ sq)
   \<and> build_transport remote_ok ''test'' server_no_command =
       Inl (ValueError (''MCP server 'test': stdio transport requires a 'command'' @ sq))
   \<and> sublist ''command'' (''MCP server 'test': stdio transport requires a 'command'' @ sq)
   \<and> build_transport remote_ok ''test'' server_websocket =
       Inl (ValueError ''MCP server 'test': unsupported transport type 'websocket' (expected 'http' or 'stdio')'')
   \<and> sublist ''unsupported''
         ''MCP server 'test': unsupported transport type 'websocket' (expected 'http' or 'stdio')''
   \<and> build_transport remote_ok ''test'' server_http = Inr (StreamableHttpTransport ''http://x/mcp'' [])
   \<and> build_transport remote_ok ''test'' server_stdio = Inr (StdioTransport ''python'' [''s.py''] [])
   \<and> build_transport remote_ok ''test'' server_bad_url =
       Inl (ValueError ''Invalid HTTP/S URL provided for Streamable HTTP.'')"
proof -
  have e1: "build_transport remote_ok ''test'' server_no_url =
       Inl (ValueError (''MCP server 'test': HTTP transport requires a 'url'' @ sq))"
    by (simp add: build_transport_def server_no_url_def server_http_def)
  have e2: "build_transport remote_ok ''test'' server_no_command =
       Inl (ValueError (''MCP server 'test': stdio transport requires a 'command'' @ sq))"
    by (simp add: build_transport_def server_no_command_def server_stdio_def)
  have e3: "build_transport remote_ok ''test'' server_websocket =
       Inl (ValueError ''MCP server 'test': unsupported transport type 'websocket' (expected 'http' or 'stdio')'')"
    by (simp add: build_transport_def server_websocket_def server_http_def)
  have h1: "cfg_type server_no_url = ''http'' \<and> cfg_url server_no_url = []"
    by (simp add: server_no_url_def server_http_def)
  have h2: "cfg_type server_no_command = ''stdio'' \<and> cfg_command server_no_command = []"
    by (simp add: server_no_command_def server_stdio_def)
  have h3: "cfg_type server_websocket \<noteq> ''http'' \<and> cfg_type server_websocket \<noteq> ''stdio''"
    by (simp add: server_websocket_def server_http_def)
  have h4: "cfg_type server_http = ''http'' \<and> cfg_url server_http \<noteq> []"
    by (simp add: server_http_def)
  have h5: "cfg_type server_stdio = ''stdio'' \<and> cfg_command server_stdio \<noteq> []"
    by (simp add: server_stdio_def)
  have h6: "cfg_type server_bad_url = ''http'' \<and> cfg_url server_bad_url \<noteq> []"
    by (simp add: server_bad_url_def server_http_def)
  from build_transport_cases [where cfg = server_no_url and name = "''test''" and r = remote_ok] h1
  obtain x1 where "build_transport remote_ok ''test'' server_no_url = Inl x1" "sublist ''url'' (exn_msg x1)"
    by blast
  then have s1: "sublist ''url'' (''MCP server 'test': HTTP transport requires a 'url'' @ sq)"
    by (auto simp add: e1 ValueError_def)
  from build_transport_cases [where cfg = server_no_command and name = "''test''" and r = remote_ok] h2
  obtain x2 where "build_transport remote_ok ''test'' server_no_command = Inl x2"
    "sublist ''command'' (exn_msg x2)"
    by blast
  then have s2: "sublist ''command'' (''MCP server 'test': stdio transport requires a 'command'' @ sq)"
    by (auto simp add: e2 ValueError_def)
  from build_transport_cases [where cfg = server_websocket and name = "''test''" and r = remote_ok] h3
  obtain x3 where "build_transport remote_ok ''test'' server_websocket = Inl x3"
    "sublist ''unsupported'' (exn_msg x3)"
    by blast
  then have s3: "sublist ''unsupported''
         ''MCP server 'test': unsupported transport type 'websocket' (expected 'http' or 'stdio')''"
    by (auto simp add: e3 ValueError_def)
  from build_transport_cases [where cfg = server_http and name = "''test''" and r = remote_ok] h4
  have "build_transport remote_ok ''test'' server_http =
      (case new_http_transport remote_ok (cfg_url server_http)
              (case cfg_headers server_http of None \<Rightarrow> [] | Some h \<Rightarrow> h) of
         Some e \<Rightarrow> Inl e
       | None \<Rightarrow> Inr (StreamableHttpTransport (cfg_url server_http)
                      (case cfg_headers server_http of None \<Rightarrow> [] | Some h \<Rightarrow> h)))"
    by blast
  then have r4: "build_transport remote_ok ''test'' server_http =
      Inr (StreamableHttpTransport ''http://x/mcp'' [])"
    by (simp add: server_http_def remote_ok_def http_url_check_def)
  from build_transport_cases [where cfg = server_stdio and name = "''test''" and r = remote_ok] h5
  have "build_transport remote_ok ''test'' server_stdio =
      (case new_stdio_transport remote_ok (cfg_command server_stdio)
              (case cfg_args server_stdio of None \<Rightarrow> [] | Some xs \<Rightarrow> xs)
              (case cfg_env server_stdio of None \<Rightarrow> [] | Some e \<Rightarrow> e) of
         Some e \<Rightarrow> Inl e
       | None \<Rightarrow> Inr (StdioTransport (cfg_command server_stdio)
                      (case cfg_args server_stdio of None \<Rightarrow> [] | Some xs \<Rightarrow> xs)
                      (case cfg_env server_stdio of None \<Rightarrow> [] | Some e \<Rightarrow> e)))"
    by blast
  then have r5: "build_transport remote_ok ''test'' server_stdio =
      Inr (StdioTransport ''python'' [''s.py''] [])"
    by (simp add: server_stdio_def remote_ok_def stdio_accepts_def)
  from build_transport_cases [where cfg = server_bad_url and name = "''test''" and r = remote_ok] h6
  have "build_transport remote_ok ''test'' server_bad_url =
      (case new_http_transport remote_ok (cfg_url server_bad_url)
              (case cfg_headers server_bad_url of None \<Rightarrow> [] | Some h \<Rightarrow> h) of
         Some e \<Rightarrow> Inl e
       | None \<Rightarrow> Inr (StreamableHttpTransport (cfg_url server_bad_url)
                      (case cfg_headers server_bad_url of None \<Rightarrow> [] | Some h \<Rightarrow> h)))"
    by blast
  then have r6: "build_transport remote_ok ''test'' server_bad_url =
       Inl (ValueError ''Invalid HTTP/S URL provided for Streamable HTTP.'')"
    by (simp add: server_bad_url_def server_http_def remote_ok_def http_url_check_def)
  show ?thesis
    using e1 e2 e3 s1 s2 s3 r4 r5 r6 by blast
qed

text \<open>
  The type is \<open>http\<close> and the URL \<open>localhost:8000/mcp\<close> is not empty, yet the selector
  returns no descriptor: the \<open>ValueError\<close> of the constructor leaves it.
\<close>

theorem build_transport_descriptor_counterexample:
  "cfg_type server_bad_url = ''http''
   \<and> cfg_url server_bad_url = ''localhost:8000/mcp''
   \<and> build_transport remote_ok ''test'' server_bad_url =
       Inl (ValueError ''Invalid HTTP/S URL provided for Streamable HTTP.'')"
  by (simp add: build_transport_def server_bad_url_def server_http_def remote_ok_def
        http_url_check_def or_opt_def)

section \<open>The connection manager\<close>

text \<open>
  C4. \<open>start\<close> is idempotent once it has succeeded. On a started manager it returns the
  cached adapter list and changes neither the manager nor the trace: no connection is
  opened, no tools are listed. Hence a second \<open>start\<close> in succession returns what the
  first returned and leaves the state of the first, started; and for a configuration of
  one enabled server with a valid transport, the two calls together open exactly one
  connection.
\<close>

theorem start_idempotent:
  "(started m \<longrightarrow> start r (m, w) = (Inr (tools m), (m, w)))
   \<and> start r (snd (start r s)) = start r s
   \<and> opens (snd (snd (start r (snd (start r s))))) = opens (snd (snd (start r s)))
   \<and> (\<not> started m0 \<and> config m0 = [(name, cfg)] \<and> cfg_enabled cfg \<and> build_transport r name cfg = Inr tr
        \<longrightarrow> opens (snd (snd (start r (snd (start r (m0, w0)))))) = opens w0 + 1)"
  by (simp add: start_twice start_started start_single_opens)

text \<open>A started manager, and two calls in a row on a fresh manager with one HTTP server.\<close>

theorem start_idempotent_witness:
  "started started_manager
   \<and> start remote_ok (started_manager, []) = (Inr (tools started_manager), (started_manager, []))
   \<and> \<not> started (McpClientManager_init [(''s'', server_http)])
   \<and> cfg_enabled server_http
   \<and> build_transport remote_ok ''s'' server_http = Inr (StreamableHttpTransport ''http://x/mcp'' [])
   \<and> opens (snd (snd (start remote_ok
         (snd (start remote_ok (McpClientManager_init [(''s'', server_http)], [])))))) = 1"
  using start_idempotent [where m = started_manager and r = remote_ok and w = "[]"
      and s = "(started_manager, [])"
      and ?m0.0 = "McpClientManager_init [(''s'', server_http)]" and name = "''s''"
      and cfg = server_http and tr = "StreamableHttpTransport ''http://x/mcp'' []" and ?w0.0 = "[]"]
  by (simp add: started_manager_def McpClientManager_init_def server_http_def build_transport_def
        or_opt_def opens_def remote_ok_def http_url_check_def)



text \<open>
  C6 (as amended). For every configuration containing a server whose static transport
  configuration is structurally invalid (unsupported type, \<open>http\<close> with empty URL, \<open>stdio\<close>
  with empty command), \<open>start\<close> does not raise: the \<open>ValueError\<close> of the transport
  selector leaves the body of the \<open>try\<close> before any connection attempt and is caught
  there like a connectivity failure. \<open>start\<close> returns a list, marks the manager started,
  and behaves as it does on the configuration without that server.
\<close>

theorem start_swallows_config_error:
  assumes "build_transport r name cfg = Inl e"
    and "config m = pre @ (name, cfg) # rest"
  shows "start_try r name cfg s = (Some e, s)
         \<and> (\<exists>ts. fst (start r (m, w)) = Inr ts)
         \<and> is_started (fst (snd (start r (m, w))))
         \<and> start r (m, w) =
             (case start r (m\<lparr>config := pre @ rest\<rparr>, w) of
                (res, (m', w')) \<Rightarrow> (res, (m'\<lparr>config := config m\<rparr>, w')))"
proof -
  have caught: "start_try r name cfg s = (Some e, s)" for s
    using assms(1) by (cases s) (simp add: start_try_def)
  have loop: "start_loop r (pre @ (name, cfg) # rest) s = start_loop r (pre @ rest) s" for s
    by (simp add: start_loop_append start_loop_step caught del: start_loop.simps)
  have eq: "start r (m, w) =
             (case start r (m\<lparr>config := pre @ rest\<rparr>, w) of
                (res, (m', w')) \<Rightarrow> (res, (m'\<lparr>config := config m\<rparr>, w')))"
  proof (cases "started m")
    case True
    then show ?thesis by (simp add: start_started)
  next
    case False
    have "start_loop r (pre @ rest) (m\<lparr>config := pre @ rest, tools := []\<rparr>, w) =
            ((fst (start_loop r (pre @ rest) (m\<lparr>tools := []\<rparr>, w)))\<lparr>config := pre @ rest\<rparr>,
             snd (start_loop r (pre @ rest) (m\<lparr>tools := []\<rparr>, w)))"
    proof -
      have "m\<lparr>config := pre @ rest, tools := []\<rparr> = (m\<lparr>tools := []\<rparr>)\<lparr>config := pre @ rest\<rparr>"
        by (cases m) simp
      then show ?thesis by (simp only: start_loop_with_config)
    qed
    then show ?thesis
      using False by (simp add: start_not_started assms(2) loop del: start_loop.simps)
  qed
  show ?thesis
    using caught eq start_result [of r "(m, w)"] start_sets_started [of r "(m, w)"]
    by (simp add: is_started_def)
qed

text \<open>The three servers again, the third with the transport type \<open>websocket\<close>.\<close>

theorem start_swallows_config_error_witness:
  "build_transport remote_flaky ''c'' server_websocket =
       Inl (ValueError ''MCP server 'c': unsupported transport type 'websocket' (expected 'http' or 'stdio')'')
   \<and> config (McpClientManager_init three_servers) =
       [(''a'', server_http), (''b'', server_stdio)] @ (''c'', server_websocket) # []
   \<and> fst (start remote_flaky (McpClientManager_init three_servers, [])) =
       Inr [make_adapter ''a'' http_client tool_t]
   \<and> is_started (fst (snd (start remote_flaky (McpClientManager_init three_servers, []))))"
proof -
  let ?m = "McpClientManager_init three_servers"
  have b: "build_transport remote_flaky ''c'' server_websocket =
       Inl (ValueError ''MCP server 'c': unsupported transport type 'websocket' (expected 'http' or 'stdio')'')"
    by (simp add: build_transport_def server_websocket_def server_http_def)
  have c: "config ?m = [(''a'', server_http), (''b'', server_stdio)] @ (''c'', server_websocket) # []"
    by (simp add: McpClientManager_init_def three_servers_def)
  have two: "start remote_flaky (?m\<lparr>config := [(''a'', server_http), (''b'', server_stdio)] @ []\<rparr>, []) =
      (Inr [make_adapter ''a'' http_client tool_t],
       (\<lparr> config = [(''a'', server_http), (''b'', server_stdio)],
          clients = [(''a'', http_client), (''b'', stdio_client)],
          contexts = [(''a'', http_client), (''b'', stdio_client)],
          tools = [make_adapter ''a'' http_client tool_t],
          started = True \<rparr>,
        [AEnter http_client, ListTools http_client, AEnter stdio_client, ListTools stdio_client]))"
    by (simp add: start_def McpClientManager_init_def start_try_def
          build_transport_def server_http_def server_stdio_def or_opt_def
          or_list_def remote_flaky_def http_client_def stdio_client_def Let_def
          http_url_check_def stdio_accepts_def)
  note all = start_swallows_config_error [OF b c, of "(?m, [])" "[]"]
  from all have "start remote_flaky (?m, []) =
      (case start remote_flaky (?m\<lparr>config := [(''a'', server_http), (''b'', server_stdio)] @ []\<rparr>, []) of
         (res, (m', w')) \<Rightarrow> (res, (m'\<lparr>config := config ?m\<rparr>, w')))"
    by blast
  then have res: "fst (start remote_flaky (?m, [])) = Inr [make_adapter ''a'' http_client tool_t]"
    by (simp only: two prod.case fst_conv)
  from all have st: "is_started (fst (snd (start remote_flaky (?m, []))))"
    by blast
  show ?thesis
    using b c res st by blast
qed

text \<open>
  With the one enabled server \<open>bad\<close> of type \<open>websocket\<close>, the selector raises and
  \<open>start\<close> returns the empty list: nothing is raised to its caller.
\<close>

theorem start_raises_counterexample:
  "cfg_enabled server_websocket
   \<and> build_transport remote_ok ''bad'' server_websocket =
       Inl (ValueError ''MCP server 'bad': unsupported transport type 'websocket' (expected 'http' or 'stdio')'')
   \<and> start remote_ok (McpClientManager_init [(''bad'', server_websocket)], []) =
       (Inr [], (\<lparr> config = [(''bad'', server_websocket)], clients = [], contexts = [], tools = [],
                   started = True \<rparr>, []))"
  by (simp add: start_def McpClientManager_init_def start_try_def build_transport_def
        server_websocket_def server_http_def)

text \<open>
  C7. In every state that a manager reaches by any sequence of \<open>start\<close> and \<open>stop\<close> calls
  (after a start that failed for some servers, or without any start), the two session
  maps agree, and \<open>stop\<close> does not raise, requests the close of every session of the map,
  in order, whatever the earlier closes did, and leaves the session map empty, \<open>get_tools\<close>
  empty and \<open>started\<close> false.
\<close>

theorem stop_clears_everything:
  "reachable r cfg s \<Longrightarrow>
     fst (stop r s) = Inr ()
     \<and> clients (fst s) = contexts (fst s)
     \<and> snd (snd (stop r s)) = snd s @ map (AExit \<circ> snd) (contexts (fst s))
     \<and> contexts (fst (snd (stop r s))) = []
     \<and> clients (fst (snd (stop r s))) = []
     \<and> get_tools (fst (snd (stop r s))) = []
     \<and> \<not> is_started (fst (snd (stop r s)))"
  using reachable_sessions [of r cfg s]
  by (cases s) (simp add: stop_def stop_loop_trace get_tools_def is_started_def)

text \<open>
  After a start on the three servers, two sessions are open. The close of the first one
  fails; the second one is closed all the same, and the manager is reset.
\<close>

theorem stop_clears_everything_witness:
  "reachable remote_flaky three_servers
     (snd (start remote_flaky (McpClientManager_init three_servers, [])))
   \<and> snd (snd (stop remote_flaky (snd (start remote_flaky (McpClientManager_init three_servers, []))))) =
       [AEnter http_client, ListTools http_client, AEnter stdio_client, ListTools stdio_client,
        AExit http_client, AExit stdio_client]
   \<and> get_tools (fst (snd (stop remote_flaky
         (snd (start remote_flaky (McpClientManager_init three_servers, [])))))) = []
   \<and> \<not> is_started (fst (snd (stop remote_flaky
         (snd (start remote_flaky (McpClientManager_init three_servers, []))))))"
proof -
  have reach: "reachable remote_flaky three_servers
     (snd (start remote_flaky (McpClientManager_init three_servers, [])))"
    by (rule reach_start [OF reach_init])
  have run: "snd (start remote_flaky (McpClientManager_init three_servers, [])) =
      (\<lparr> config = three_servers,
         clients = [(''a'', http_client), (''b'', stdio_client)],
         contexts = [(''a'', http_client), (''b'', stdio_client)],
         tools = [make_adapter ''a'' http_client tool_t],
         started = True \<rparr>,
       [AEnter http_client, ListTools http_client, AEnter stdio_client, ListTools stdio_client])"
    by (simp add: start_def McpClientManager_init_def three_servers_def start_try_def
          build_transport_def server_http_def server_stdio_def server_websocket_def or_opt_def
          or_list_def remote_flaky_def http_client_def stdio_client_def Let_def
          http_url_check_def stdio_accepts_def)
  show ?thesis
    using stop_clears_everything [OF reach] reach by (simp add: run)
qed

text \<open>
  C8. A server whose \<open>enabled\<close> flag is false is skipped entirely: \<open>start\<close> returns the
  same result, leaves the same manager and makes the same remote requests as on the
  configuration without the disabled servers, so no transport is built and no connection
  is attempted for them, and they contribute no adapter. When no server is enabled, a
  fresh manager returns the empty list, makes no request and is started.
\<close>

theorem start_skips_disabled:
  "start r (m, w) =
     (case start r (m\<lparr>config := filter (\<lambda>(n, c). cfg_enabled c) (config m)\<rparr>, w) of
        (res, (m', w')) \<Rightarrow> (res, (m'\<lparr>config := config m\<rparr>, w')))
   \<and> (\<not> started m \<and> (\<forall>(n, c) \<in> set (config m). \<not> cfg_enabled c) \<longrightarrow>
        start r (m, w) = (Inr [], (m\<lparr>tools := [], started := True\<rparr>, w)))"
proof -
  have eq: "start r (m, w) =
     (case start r (m\<lparr>config := filter (\<lambda>(n, c). cfg_enabled c) (config m)\<rparr>, w) of
        (res, (m', w')) \<Rightarrow> (res, (m'\<lparr>config := config m\<rparr>, w')))"
  proof (cases "started m")
    case True
    then show ?thesis by (simp add: start_started)
  next
    case False
    let ?on = "filter (\<lambda>(n, c). cfg_enabled c) (config m)"
    have "start_loop r ?on (m\<lparr>config := ?on, tools := []\<rparr>, w) =
            ((fst (start_loop r ?on (m\<lparr>tools := []\<rparr>, w)))\<lparr>config := ?on\<rparr>,
             snd (start_loop r ?on (m\<lparr>tools := []\<rparr>, w)))"
    proof -
      have "m\<lparr>config := ?on, tools := []\<rparr> = (m\<lparr>tools := []\<rparr>)\<lparr>config := ?on\<rparr>"
        by (cases m) simp
      then show ?thesis by (simp only: start_loop_with_config)
    qed
    then show ?thesis
      using False by (simp add: start_not_started start_loop_filter del: start_loop.simps)
  qed
  have none: "start r (m, w) = (Inr [], (m\<lparr>tools := [], started := True\<rparr>, w))"
    if ns: "\<not> started m" and off: "\<forall>(n, c) \<in> set (config m). \<not> cfg_enabled c"
  proof -
    have "filter (\<lambda>(n, c). cfg_enabled c) (config m) = []"
      using off by (auto simp add: filter_empty_conv)
    then have "start_loop r (config m) (m\<lparr>tools := []\<rparr>, w) = (m\<lparr>tools := []\<rparr>, w)"
      using start_loop_filter [of r "config m" "(m\<lparr>tools := []\<rparr>, w)"] by simp
    then show ?thesis using ns by (simp add: start_not_started)
  qed
  show ?thesis using eq none by blast
qed

text \<open>One disabled server and no enabled one.\<close>

theorem start_skips_disabled_witness:
  "\<not> started (McpClientManager_init [(''off'', server_off)])
   \<and> config (McpClientManager_init [(''off'', server_off)]) = [(''off'', server_off)]
   \<and> \<not> cfg_enabled server_off
   \<and> start remote_ok (McpClientManager_init [(''off'', server_off)], []) =
       (Inr [], ((McpClientManager_init [(''off'', server_off)])\<lparr>tools := [], started := True\<rparr>, []))"
proof -
  have h1: "\<not> started (McpClientManager_init [(''off'', server_off)])"
    by (simp add: McpClientManager_init_def)
  have h2: "config (McpClientManager_init [(''off'', server_off)]) = [(''off'', server_off)]"
    by (simp add: McpClientManager_init_def)
  have h3: "\<not> cfg_enabled server_off"
    by (simp add: server_off_def)
  have h: "\<forall>(n, c) \<in> set (config (McpClientManager_init [(''off'', server_off)])). \<not> cfg_enabled c"
    by (simp add: h2 h3)
  show ?thesis
    using start_skips_disabled [of remote_ok "McpClientManager_init [(''off'', server_off)]" "[]"]
      h h1 h2 h3
    by blast
qed

end
